theory Spec2Isabelle
  imports Main
begin

section \<open>Python values\<close>

text \<open>
  The values that \<^verbatim>\<open>json.load\<close> and \<^verbatim>\<open>yaml.safe_load\<close> hand back. A finite float
  is a mantissa and a binary exponent (the value \<open>m * 2^e\<close>), so it is zero exactly
  when the mantissa is. A YAML timestamp becomes a date object, kept here by its
  ISO text. Text is a list of 8-bit characters: code points below 256.
\<close>

datatype pyfloat = FFinite int int | FInfinity bool | FNaN

datatype pyval =
    PNone
  | PBool bool
  | PInt int
  | PFloat pyfloat
  | PStr string
  | PBytes string
  | PList "pyval list"
  | PDict "(pyval \<times> pyval) list"
  | PSet "pyval list"
  | PDate string

text \<open>Python's boolean coercion, as \<^verbatim>\<open>if not config_data\<close> applies it.\<close>

fun float_nonzero :: "pyfloat \<Rightarrow> bool" where
  "float_nonzero (FFinite m e) = (m \<noteq> 0)"
| "float_nonzero (FInfinity s) = True"
| "float_nonzero FNaN = True"

fun truthy :: "pyval \<Rightarrow> bool" where
  "truthy PNone = False"
| "truthy (PBool b) = b"
| "truthy (PInt i) = (i \<noteq> 0)"
| "truthy (PFloat f) = float_nonzero f"
| "truthy (PStr s) = (s \<noteq> [])"
| "truthy (PBytes s) = (s \<noteq> [])"
| "truthy (PList xs) = (xs \<noteq> [])"
| "truthy (PDict kvs) = (kvs \<noteq> [])"
| "truthy (PSet xs) = (xs \<noteq> [])"
| "truthy (PDate d) = True"

section \<open>Strings\<close>

text \<open>\<^verbatim>\<open>str.endswith\<close>, \<^verbatim>\<open>str.startswith\<close>, \<^verbatim>\<open>str.isspace\<close> on one character and \<^verbatim>\<open>str.strip\<close>.\<close>

definition endswith :: "string \<Rightarrow> string \<Rightarrow> bool" where
  "endswith s suffix =
     (length suffix \<le> length s \<and> drop (length s - length suffix) s = suffix)"


definition isspace :: "char \<Rightarrow> bool" where
  "isspace c =
     (let n = (of_char c :: nat)
      in (9 \<le> n \<and> n \<le> 13) \<or> (28 \<le> n \<and> n \<le> 32) \<or> n = 133 \<or> n = 160)"

definition strip :: "string \<Rightarrow> string" where
  "strip s = rev (dropWhile isspace (rev (dropWhile isspace s)))"

section \<open>Exceptions\<close>

text \<open>
  The exception classes the program names or can meet, with Python's subclass
  relation. \<open>Exception\<close> stands for every other subclass of \<^verbatim>\<open>Exception\<close> too.
  An exception value is its class and the text \<^verbatim>\<open>str(e)\<close> gives.
\<close>

datatype exc_class =
    FileNotFoundError
  | OSError
  | UnicodeDecodeError
  | JSONDecodeError
  | ValueError
  | YAMLError
  | ValidationError
  | SchemaError
  | Exception

definition issubclass :: "exc_class \<Rightarrow> exc_class \<Rightarrow> bool" where
  "issubclass c d =
     (c = d \<or> d = Exception
      \<or> (d = ValueError \<and> (c = JSONDecodeError \<or> c = UnicodeDecodeError))
      \<or> (d = OSError \<and> c = FileNotFoundError))"

datatype exc = Exc (cls: exc_class) (msg: string)

section \<open>The environment of one run\<close>

text \<open>
  What the program reads and calls but does not define: the files on disk and the three
  library entry points. A file is absent, cannot be opened or read (any other
  \<^verbatim>\<open>OSError\<close>, with its text), cannot be decoded (\<^verbatim>\<open>UnicodeDecodeError\<close>, a subclass of
  \<^verbatim>\<open>ValueError\<close>), or holds text. The parsers map text to a value or raise; the
  engine \<^verbatim>\<open>jsonschema.validate\<close> returns nothing or raises.
\<close>

datatype file_state = NoSuchFile | OpenFails string | DecodeFails string | Text string

record env =
  fs :: "string \<Rightarrow> file_state"
  json_loads :: "string \<Rightarrow> exc + pyval"
  yaml_safe_load :: "string \<Rightarrow> exc + pyval"
  jsonschema_validate :: "pyval \<Rightarrow> pyval \<Rightarrow> exc option"

text \<open>
  \<^verbatim>\<open>with open(path, 'r') as f\<close> followed by reading \<open>f\<close> whole. Each branch of both
  loaders reads the file exactly once, and an exception of \<^verbatim>\<open>open\<close> or of the read
  passes every inner handler (they catch parser errors only), so the two steps are one
  here. The text of the \<^verbatim>\<open>FileNotFoundError\<close> is dropped by both loaders.
\<close>

definition open_read :: "env \<Rightarrow> string \<Rightarrow> exc + string" where
  "open_read env path =
     (case fs env path of
        NoSuchFile \<Rightarrow>
          Inl (Exc FileNotFoundError
                 (''[Errno 2] No such file or directory: '' @ [CHR 0x27] @ path @ [CHR 0x27]))
      | OpenFails m \<Rightarrow> Inl (Exc OSError m)
      | DecodeFails m \<Rightarrow> Inl (Exc UnicodeDecodeError m)
      | Text content \<Rightarrow> Inr content)"

section \<open>The Document Loader\<close>

datatype fmt = FJson | FYaml

text \<open>
  The \<^verbatim>\<open>with\<close> block of \<^verbatim>\<open>load_config\<close>. Its three branches come first: the strict JSON
  parse, the strict YAML parse, and the detection by content (emptiness check, JSON trial,
  then YAML trial).
\<close>

definition parse_json :: "env \<Rightarrow> string \<Rightarrow> string \<Rightarrow> exc + pyval" where
  "parse_json env config_file content =
     (case json_loads env content of
        Inl e \<Rightarrow>
          if issubclass (cls e) JSONDecodeError
          then Inl (Exc ValueError
                 (''Invalid JSON format in '' @ config_file @ '': '' @ msg e))
          else Inl e
      | Inr config_data \<Rightarrow> Inr config_data)"

definition parse_yaml :: "env \<Rightarrow> string \<Rightarrow> string \<Rightarrow> exc + pyval" where
  "parse_yaml env config_file content =
     (case yaml_safe_load env content of
        Inl e \<Rightarrow>
          if issubclass (cls e) YAMLError
          then Inl (Exc ValueError
                 (''Invalid YAML format in '' @ config_file @ '': '' @ msg e))
          else Inl e
      | Inr config_data \<Rightarrow> Inr config_data)"

definition autodetect :: "env \<Rightarrow> string \<Rightarrow> string \<Rightarrow> exc + pyval" where
  "autodetect env config_file content =
     (if strip content = [] then
        Inl (Exc ValueError (''Configuration file '' @ config_file @ '' is empty.''))
      else
        (case json_loads env content of
           Inr config_data \<Rightarrow> Inr config_data
         | Inl e \<Rightarrow>
             if issubclass (cls e) JSONDecodeError then
               (case yaml_safe_load env content of
                  Inr config_data \<Rightarrow> Inr config_data
                | Inl e' \<Rightarrow>
                    if issubclass (cls e') YAMLError
                    then Inl (Exc ValueError
                           (''Could not determine format of '' @ config_file
                            @ ''.  Please specify format using -f/--format.''))
                    else Inl e')
             else Inl e))"

definition parse_config :: "env \<Rightarrow> string \<Rightarrow> fmt option \<Rightarrow> exc + pyval" where
  "parse_config env config_file format =
     (case open_read env config_file of
        Inl e \<Rightarrow> Inl e
      | Inr content \<Rightarrow>
          if format = Some FJson \<or> (format = None \<and> endswith config_file ''.json'')
          then parse_json env config_file content
          else if format = Some FYaml
                  \<or> (format = None
                      \<and> (endswith config_file ''.yaml'' \<or> endswith config_file ''.yml''))
          then parse_yaml env config_file content
          else autodetect env config_file content)"

text \<open>The \<^verbatim>\<open>except\<close> clauses that close \<^verbatim>\<open>load_config\<close>.\<close>

definition load_config_except :: "string \<Rightarrow> exc \<Rightarrow> exc" where
  "load_config_except config_file e =
     (if issubclass (cls e) FileNotFoundError
      then Exc FileNotFoundError (''Configuration file not found: '' @ config_file)
      else if issubclass (cls e) ValueError then e
      else Exc Exception (''Error reading configuration file: '' @ msg e))"

definition load_config :: "env \<Rightarrow> string \<Rightarrow> fmt option \<Rightarrow> exc + pyval" where
  "load_config env config_file format =
     (case
        (case parse_config env config_file format of
           Inl e \<Rightarrow> Inl e
         | Inr config_data \<Rightarrow>
             if \<not> truthy config_data
             then Inl (Exc ValueError
                    (''Configuration file '' @ config_file
                     @ '' is empty or contains no data.''))
             else Inr config_data)
      of
        Inl e \<Rightarrow> Inl (load_config_except config_file e)
      | Inr config_data \<Rightarrow> Inr config_data)"

section \<open>The Schema Loader\<close>

definition load_schema_except :: "string \<Rightarrow> exc \<Rightarrow> exc" where
  "load_schema_except schema_file e =
     (if issubclass (cls e) FileNotFoundError
      then Exc FileNotFoundError (''Schema file not found: '' @ schema_file)
      else Exc Exception (''Error reading schema file: '' @ msg e))"

definition load_schema :: "env \<Rightarrow> string \<Rightarrow> exc + pyval" where
  "load_schema env schema_file =
     (case
        (case open_read env schema_file of
           Inl e \<Rightarrow> Inl e
         | Inr content \<Rightarrow>
             (case json_loads env content of
                Inl e \<Rightarrow>
                  if issubclass (cls e) JSONDecodeError
                  then Inl (Exc ValueError
                         (''Invalid JSON format in schema file '' @ schema_file
                          @ '': '' @ msg e))
                  else Inl e
              | Inr schema_data \<Rightarrow> Inr schema_data))
      of
        Inl e \<Rightarrow> Inl (load_schema_except schema_file e)
      | Inr schema_data \<Rightarrow> Inr schema_data)"

section \<open>The Validator\<close>

definition validate_config :: "env \<Rightarrow> pyval \<Rightarrow> pyval \<Rightarrow> exc + bool" where
  "validate_config env config_data schema_data =
     (case jsonschema_validate env config_data schema_data of
        None \<Rightarrow> Inr True
      | Some e \<Rightarrow>
          if issubclass (cls e) ValidationError
          then Inl (Exc ValidationError (''Configuration validation error: '' @ msg e))
          else if issubclass (cls e) SchemaError
          then Inl (Exc SchemaError (''Invalid schema: '' @ msg e))
          else Inl (Exc Exception
                 (''An unexpected error occurred during validation: '' @ msg e)))"

section \<open>The Orchestrator\<close>

datatype level = DEBUG | INFO | WARNING | ERROR | CRITICAL

fun levelno :: "level \<Rightarrow> nat" where
  "levelno DEBUG = 10"
| "levelno INFO = 20"
| "levelno WARNING = 30"
| "levelno ERROR = 40"
| "levelno CRITICAL = 50"

record args =
  config_file :: string
  schema_file :: string
  format :: "fmt option"
  log_level :: level

text \<open>
  What one run leaves behind: the lines printed, the records the root logger lets
  through (level and message; the time stamp of the format is left out), the exit
  code, and the calls made to \<^verbatim>\<open>validate_config\<close>.
\<close>

record outcome =
  stdout :: "string list"
  log_records :: "(level \<times> string) list"
  exit_code :: int
  validator_calls :: "(pyval \<times> pyval) list"

text \<open>A logging call at level \<open>lvl\<close> under the root logger's level \<open>threshold\<close>.\<close>

definition emit :: "level \<Rightarrow> level \<Rightarrow> string \<Rightarrow> (level \<times> string) list" where
  "emit threshold lvl m = (if levelno threshold \<le> levelno lvl then [(lvl, m)] else [])"

text \<open>The \<^verbatim>\<open>except\<close> clauses of \<^verbatim>\<open>main\<close>, in the source's order; \<open>calls\<close> is the trace so far.\<close>

definition main_except :: "level \<Rightarrow> (pyval \<times> pyval) list \<Rightarrow> exc \<Rightarrow> outcome" where
  "main_except threshold calls e =
     (if issubclass (cls e) FileNotFoundError then
        \<lparr>stdout = [''Error: '' @ msg e], log_records = emit threshold ERROR (msg e),
         exit_code = 1, validator_calls = calls\<rparr>
      else if issubclass (cls e) ValueError then
        \<lparr>stdout = [''Error: '' @ msg e], log_records = emit threshold ERROR (msg e),
         exit_code = 1, validator_calls = calls\<rparr>
      else if issubclass (cls e) ValidationError then
        \<lparr>stdout = [''Error: '' @ msg e], log_records = emit threshold ERROR (msg e),
         exit_code = 1, validator_calls = calls\<rparr>
      else if issubclass (cls e) SchemaError then
        \<lparr>stdout = [''Error: '' @ msg e], log_records = emit threshold ERROR (msg e),
         exit_code = 1, validator_calls = calls\<rparr>
      else
        \<lparr>stdout = [''An unexpected error occurred: '' @ msg e],
         log_records = emit threshold ERROR (''An unexpected error occurred: '' @ msg e),
         exit_code = 1, validator_calls = calls\<rparr>)"

text \<open>
  The \<^verbatim>\<open>try\<close> block of \<^verbatim>\<open>main\<close>: what it yields (the exception raised, or what
  \<^verbatim>\<open>validate_config\<close> returned) and the calls it made to \<^verbatim>\<open>validate_config\<close>.
\<close>

definition main_try :: "env \<Rightarrow> args \<Rightarrow> (exc + bool) \<times> (pyval \<times> pyval) list" where
  "main_try env a =
     (case load_config env (config_file a) (format a) of
        Inl e \<Rightarrow> (Inl e, [])
      | Inr config_data \<Rightarrow>
          (case load_schema env (schema_file a) of
             Inl e \<Rightarrow> (Inl e, [])
           | Inr schema_data \<Rightarrow>
               (validate_config env config_data schema_data,
                [(config_data, schema_data)])))"

definition main :: "env \<Rightarrow> args \<Rightarrow> outcome" where
  "main env a =
     (case main_try env a of
        (Inl e, calls) \<Rightarrow> main_except (log_level a) calls e
      | (Inr ok, calls) \<Rightarrow>
          if ok then
            \<lparr>stdout = [''Configuration is valid.''],
             log_records = emit (log_level a) INFO ''Configuration is valid.'',
             exit_code = 0,
             validator_calls = calls\<rparr>
          else
            \<lparr>stdout = [''Configuration is invalid, but no exception was raised. This is unexpected.''],
             log_records = emit (log_level a) ERROR
               ''Configuration is invalid, but no exception was raised. This is unexpected.'',
             exit_code = 0,
             validator_calls = calls\<rparr>)"

section \<open>A sample environment\<close>

text \<open>
  A handful of files, and library entry points that answer on the texts and values of
  those files. \<^verbatim>\<open>json.loads\<close> rejects the empty text, the YAML text and the prose at their
  first character. \<^verbatim>\<open>yaml.safe_load\<close> follows PyYAML's scanner: the empty text is \<^verbatim>\<open>None\<close>; a
  tab cannot start a token (the message is cut to its middle line); a non-breaking space
  is white space for \<^verbatim>\<open>str.strip\<close> but not for YAML, so it reads as a string of one
  character. The engine accepts everything under the schema \<^verbatim>\<open>{}\<close> and reports a violation
  by its message. For any other pair the sample engine stands for one that gives up with
  a \<^verbatim>\<open>RecursionError\<close>. The concrete runs below use this environment.
\<close>

definition demo_fs :: "string \<Rightarrow> file_state" where
  \<open>demo_fs path =
     (if path = ''config.json'' then Text ''{"a": 1}''
      else if path = ''schema.json'' then Text ''{"type": "object", "required": ["a"]}''
      else if path = ''typed.json'' then Text ''{"a": "x"}''
      else if path = ''number_schema.json''
        then Text ''{"type": "object", "properties": {"a": {"type": "number"}}}''
      else if path = ''permissive.json'' then Text ''{}''
      else if path = ''empty.json'' then Text []
      else if path = ''empty.yaml'' then Text []
      else if path = ''blank.conf'' then Text '' \<newline>''
      else if path = ''tab.yml'' then Text [CHR 0x09]
      else if path = ''nbsp.yaml'' then Text [CHR 0xA0]
      else if path = ''notes.json'' then Text ''a: 1''
      else if path = ''notes.txt'' then Text ''a: 1''
      else if path = ''broken_schema.json'' then Text ''not json at all''
      else if path = ''schema.yaml'' then Text ''{}''
      else if path = ''zero.conf'' then Text ''0''
      else if path = ''locked.json''
        then OpenFails (''[Errno 13] Permission denied: 'locked.json'' @ [CHR 0x27])
      else NoSuchFile)\<close>

definition demo_json_loads :: "string \<Rightarrow> exc + pyval" where
  \<open>demo_json_loads s =
     (if s = ''{"a": 1}'' then Inr (PDict [(PStr ''a'', PInt 1)])
      else if s = ''{"a": "x"}'' then Inr (PDict [(PStr ''a'', PStr ''x'')])
      else if s = ''{}'' then Inr (PDict [])
      else if s = ''0'' then Inr (PInt 0)
      else if s = ''{"type": "object", "required": ["a"]}''
        then Inr (PDict [(PStr ''type'', PStr ''object''),
                         (PStr ''required'', PList [PStr ''a''])])
      else if s = ''{"type": "object", "properties": {"a": {"type": "number"}}}''
        then Inr (PDict [(PStr ''type'', PStr ''object''),
                         (PStr ''properties'',
                          PDict [(PStr ''a'', PDict [(PStr ''type'', PStr ''number'')])])])
      else Inl (Exc JSONDecodeError ''Expecting value: line 1 column 1 (char 0)''))\<close>

definition demo_yaml_safe_load :: "string \<Rightarrow> exc + pyval" where
  \<open>demo_yaml_safe_load s =
     (if s = [] then Inr PNone
      else if s = ''a: 1'' then Inr (PDict [(PStr ''a'', PInt 1)])
      else if s = [CHR 0x09]
        then Inl (Exc YAMLError ''found a character that cannot start any token'')
      else if s = [CHR 0xA0] then Inr (PStr [CHR 0xA0])
      else Inl (Exc YAMLError ''mapping values are not allowed here''))\<close>

definition demo_validate :: "pyval \<Rightarrow> pyval \<Rightarrow> exc option" where
  \<open>demo_validate instance schema =
     (if schema = PDict [] then None
      else if schema = PDict [(PStr ''type'', PStr ''object''),
                              (PStr ''required'', PList [PStr ''a''])]
              \<and> instance = PDict [(PStr ''a'', PInt 1)] then None
      else if schema = PDict [(PStr ''type'', PStr ''object''),
                              (PStr ''properties'',
                               PDict [(PStr ''a'', PDict [(PStr ''type'', PStr ''number'')])])]
              \<and> instance = PDict [(PStr ''a'', PStr ''x'')]
        then Some (Exc ValidationError (CHR 0x27 # ''x' is not of type 'number'' @ [CHR 0x27]))
      else Some (Exc Exception ''maximum recursion depth exceeded''))\<close>

definition demo_env :: env where
  "demo_env =
     \<lparr>fs = demo_fs, json_loads = demo_json_loads,
      yaml_safe_load = demo_yaml_safe_load, jsonschema_validate = demo_validate\<rparr>"

definition demo_args :: "string \<Rightarrow> string \<Rightarrow> fmt option \<Rightarrow> level \<Rightarrow> args" where
  "demo_args c s f l = \<lparr>config_file = c, schema_file = s, format = f, log_level = l\<rparr>"

section \<open>Evaluation and helper lemmas\<close>

lemmas demo_defs =
  demo_env_def demo_fs_def demo_json_loads_def demo_yaml_safe_load_def demo_validate_def
  demo_args_def

lemmas prog_defs =
  main_def main_try_def main_except_def load_config_def load_config_except_def
  parse_config_def parse_json_def parse_yaml_def autodetect_def
  load_schema_def load_schema_except_def validate_config_def open_read_def issubclass_def
  emit_def endswith_def

lemma stdout_main_except:
  "stdout (main_except t calls e) =
     [(if issubclass (cls e) FileNotFoundError \<or> issubclass (cls e) ValueError
          \<or> issubclass (cls e) ValidationError \<or> issubclass (cls e) SchemaError
       then ''Error: '' else ''An unexpected error occurred: '') @ msg e]"
  by (simp add: main_except_def)

lemma exit_code_main_except: "exit_code (main_except t calls e) = 1"
  by (simp add: main_except_def)

lemma validator_calls_main_except: "validator_calls (main_except t calls e) = calls"
  by (simp add: main_except_def)

lemma endswith_last: "endswith s suffix \<Longrightarrow> suffix \<noteq> [] \<Longrightarrow> last s = last suffix"
proof -
  assume a: "endswith s suffix" and b: "suffix \<noteq> []"
  from a have d: "drop (length s - length suffix) s = suffix" by (simp add: endswith_def)
  with b have "drop (length s - length suffix) s \<noteq> []" by simp
  then have "last (drop (length s - length suffix) s) = last s" by (simp add: last_drop)
  with d show ?thesis by simp
qed

lemma yaml_not_json:
  "endswith p ''.yaml'' \<or> endswith p ''.yml'' \<Longrightarrow> \<not> endswith p ''.json''"
proof
  assume y: "endswith p ''.yaml'' \<or> endswith p ''.yml''" and j: "endswith p ''.json''"
  from j have "last p = CHR ''n''" using endswith_last [of p "''.json''"] by simp
  moreover from y have "last p = CHR ''l''"
    using endswith_last [of p "''.yaml''"] endswith_last [of p "''.yml''"] by auto
  ultimately show False by simp
qed






lemma load_config_ValueError:
  "parse_config env path f = Inl (Exc ValueError m) \<Longrightarrow>
     load_config env path f = Inl (Exc ValueError m)"
  by (simp add: load_config_def load_config_except_def issubclass_def)

lemma parse_config_Text:
  "fs env path = Text content \<Longrightarrow>
     parse_config env path f =
       (if f = Some FJson \<or> (f = None \<and> endswith path ''.json'')
        then parse_json env path content
        else if f = Some FYaml \<or> (f = None \<and> (endswith path ''.yaml'' \<or> endswith path ''.yml''))
        then parse_yaml env path content
        else autodetect env path content)"
  by (simp add: parse_config_def open_read_def)

lemma parse_config_json_hint:
  "endswith path ''.json'' \<Longrightarrow>
     parse_config env path (Some FJson) = parse_config env path None"
  by (cases "open_read env path") (simp_all add: parse_config_def)

lemma main_load_config_fails:
  "load_config env (config_file a) (format a) = Inl e \<Longrightarrow>
     main env a = main_except (log_level a) [] e"
  by (simp add: main_def main_try_def)

lemma main_except_ValueError:
  "main_except t calls (Exc ValueError m) =
     \<lparr>stdout = [''Error: '' @ m], log_records = emit t ERROR m,
      exit_code = 1, validator_calls = calls\<rparr>"
  by (simp add: main_except_def issubclass_def)

lemma strict_parse_returns:
  assumes "(f = Some FJson \<or> (f = None \<and> endswith path ''.json''))
       \<and> json_loads env content = Inr v
     \<or> (f = Some FYaml \<or> (f = None \<and> (endswith path ''.yaml'' \<or> endswith path ''.yml'')))
       \<and> yaml_safe_load env content = Inr v"
    and "fs env path = Text content"
  shows "parse_config env path f = Inr v"
proof -
  have nj: "endswith path ''.yaml'' \<or> endswith path ''.yml'' \<Longrightarrow> \<not> endswith path ''.json''"
    by (rule yaml_not_json)
  from assms(1) show ?thesis
  proof
    assume "(f = Some FJson \<or> (f = None \<and> endswith path ''.json''))
       \<and> json_loads env content = Inr v"
    then show ?thesis
      by (auto simp: parse_config_Text [OF assms(2)] parse_json_def)
  next
    assume "(f = Some FYaml \<or> (f = None \<and> (endswith path ''.yaml'' \<or> endswith path ''.yml'')))
       \<and> yaml_safe_load env content = Inr v"
    then show ?thesis
      using nj by (auto simp: parse_config_Text [OF assms(2)] parse_yaml_def)
  qed
qed

section \<open>Exit codes\<close>

text \<open>
  C1. When the configuration loads, the schema loads and the engine reports conformance,
  the run prints "Configuration is valid." and ends with exit code 0. When a step fails
  (the configuration does not load; it loads and the schema does not; both load and the
  engine raises), the run ends with exit code 1.
\<close>

theorem exit_codes:
  "(load_config env (config_file a) (format a) = Inr config_data
      \<and> load_schema env (schema_file a) = Inr schema_data
      \<and> jsonschema_validate env config_data schema_data = None
    \<longrightarrow> stdout (main env a) = [''Configuration is valid.''] \<and> exit_code (main env a) = 0)
   \<and> (load_config env (config_file a) (format a) = Inl e
    \<longrightarrow> exit_code (main env a) = 1)
   \<and> (load_config env (config_file a) (format a) = Inr config_data
      \<and> load_schema env (schema_file a) = Inl e
    \<longrightarrow> exit_code (main env a) = 1)
   \<and> (load_config env (config_file a) (format a) = Inr config_data
      \<and> load_schema env (schema_file a) = Inr schema_data
      \<and> jsonschema_validate env config_data schema_data = Some e
    \<longrightarrow> exit_code (main env a) = 1)"
  by (simp add: main_def main_try_def validate_config_def exit_code_main_except)

theorem exit_codes_witness:
  "load_config demo_env ''config.json'' None = Inr (PDict [(PStr ''a'', PInt 1)])
   \<and> load_schema demo_env ''schema.json''
       = Inr (PDict [(PStr ''type'', PStr ''object''), (PStr ''required'', PList [PStr ''a''])])
   \<and> stdout (main demo_env (demo_args ''config.json'' ''schema.json'' None INFO))
       = [''Configuration is valid.'']
   \<and> exit_code (main demo_env (demo_args ''config.json'' ''schema.json'' None INFO)) = 0
   \<and> load_config demo_env ''absent.json'' None
       = Inl (Exc FileNotFoundError ''Configuration file not found: absent.json'')
   \<and> exit_code (main demo_env (demo_args ''absent.json'' ''schema.json'' None INFO)) = 1
   \<and> load_schema demo_env ''absent.json''
       = Inl (Exc FileNotFoundError ''Schema file not found: absent.json'')
   \<and> exit_code (main demo_env (demo_args ''config.json'' ''absent.json'' None INFO)) = 1
   \<and> load_config demo_env ''typed.json'' None = Inr (PDict [(PStr ''a'', PStr ''x'')])
   \<and> exit_code (main demo_env (demo_args ''typed.json'' ''number_schema.json'' None INFO)) = 1"
proof -
  have c1: "load_config demo_env ''config.json'' None = Inr (PDict [(PStr ''a'', PInt 1)])"
    by (simp add: demo_defs prog_defs)
  have s1: "load_schema demo_env ''schema.json''
       = Inr (PDict [(PStr ''type'', PStr ''object''), (PStr ''required'', PList [PStr ''a''])])"
    by (simp add: demo_defs prog_defs)
  have v1: "jsonschema_validate demo_env (PDict [(PStr ''a'', PInt 1)])
       (PDict [(PStr ''type'', PStr ''object''), (PStr ''required'', PList [PStr ''a''])]) = None"
    by (simp add: demo_defs)
  have c2: "load_config demo_env ''absent.json'' None
       = Inl (Exc FileNotFoundError ''Configuration file not found: absent.json'')"
    by (simp add: demo_defs prog_defs)
  have s2: "load_schema demo_env ''absent.json''
       = Inl (Exc FileNotFoundError ''Schema file not found: absent.json'')"
    by (simp add: demo_defs prog_defs)
  have c3: "load_config demo_env ''typed.json'' None = Inr (PDict [(PStr ''a'', PStr ''x'')])"
    by (simp add: demo_defs prog_defs)
  have s3: "load_schema demo_env ''number_schema.json''
       = Inr (PDict [(PStr ''type'', PStr ''object''),
               (PStr ''properties'', PDict [(PStr ''a'', PDict [(PStr ''type'', PStr ''number'')])])])"
    by (simp add: demo_defs prog_defs)
  have v3: "jsonschema_validate demo_env (PDict [(PStr ''a'', PStr ''x'')])
       (PDict [(PStr ''type'', PStr ''object''),
               (PStr ''properties'', PDict [(PStr ''a'', PDict [(PStr ''type'', PStr ''number'')])])])
     = Some (Exc ValidationError (CHR 0x27 # ''x' is not of type 'number'' @ [CHR 0x27]))"
    by (simp add: demo_defs)
  note ok = exit_codes [of demo_env "demo_args ''config.json'' ''schema.json'' None INFO"
      "PDict [(PStr ''a'', PInt 1)]"
      "PDict [(PStr ''type'', PStr ''object''), (PStr ''required'', PList [PStr ''a''])]"]
  note f1 = exit_codes [of demo_env "demo_args ''absent.json'' ''schema.json'' None INFO" _ _
      "Exc FileNotFoundError ''Configuration file not found: absent.json''"]
  note f2 = exit_codes [of demo_env "demo_args ''config.json'' ''absent.json'' None INFO"
      "PDict [(PStr ''a'', PInt 1)]" _
      "Exc FileNotFoundError ''Schema file not found: absent.json''"]
  note f3 = exit_codes [of demo_env "demo_args ''typed.json'' ''number_schema.json'' None INFO"
      "PDict [(PStr ''a'', PStr ''x'')]"
      "PDict [(PStr ''type'', PStr ''object''),
               (PStr ''properties'', PDict [(PStr ''a'', PDict [(PStr ''type'', PStr ''number'')])])]"
      "Exc ValidationError (CHR 0x27 # ''x' is not of type 'number'' @ [CHR 0x27])"]
  show ?thesis
    using c1 s1 v1 c2 s2 c3 s3 v3 ok f1 f2 f3 by (simp add: demo_args_def)
qed

section \<open>What a failed run reports\<close>




text \<open>
  A schema file that is not JSON (the sample file \<^verbatim>\<open>broken_schema.json\<close>). The docstring of
  \<^verbatim>\<open>load_schema\<close> announces a \<^verbatim>\<open>ValueError\<close>, and \<^verbatim>\<open>load_config\<close> re-raises its own; but
  \<^verbatim>\<open>load_schema\<close> has no clause for it, so its \<^verbatim>\<open>except Exception\<close> wraps the \<^verbatim>\<open>ValueError\<close>
  and the run reports an unexpected error.
\<close>

lemma schema_syntax_error_report:
  "load_schema demo_env ''broken_schema.json''
     = Inl (Exc Exception
         ''Error reading schema file: Invalid JSON format in schema file broken_schema.json: Expecting value: line 1 column 1 (char 0)'')
   \<and> stdout (main demo_env (demo_args ''config.json'' ''broken_schema.json'' None INFO))
     = [''An unexpected error occurred: Error reading schema file: Invalid JSON format in schema file broken_schema.json: Expecting value: line 1 column 1 (char 0)'']"
  by (simp add: demo_defs prog_defs)

section \<open>The message of a schema violation\<close>

text \<open>
  C3, as amended. When the engine raises a \<^verbatim>\<open>ValidationError\<close>, \<^verbatim>\<open>validate_config\<close> raises a new
  \<^verbatim>\<open>ValidationError\<close> whose message is "Configuration validation error: " followed by the
  engine's text, which is carried unchanged.
\<close>

theorem violation_message:
  assumes "jsonschema_validate env config_data schema_data = Some e"
    and "cls e = ValidationError"
  shows "validate_config env config_data schema_data
         = Inl (Exc ValidationError (''Configuration validation error: '' @ msg e))"
  using assms by (simp add: validate_config_def issubclass_def)

theorem violation_message_witness:
  "jsonschema_validate demo_env (PDict [(PStr ''a'', PStr ''x'')])
       (PDict [(PStr ''type'', PStr ''object''),
               (PStr ''properties'', PDict [(PStr ''a'', PDict [(PStr ''type'', PStr ''number'')])])])
     = Some (Exc ValidationError (CHR 0x27 # ''x' is not of type 'number'' @ [CHR 0x27]))
   \<and> validate_config demo_env (PDict [(PStr ''a'', PStr ''x'')])
       (PDict [(PStr ''type'', PStr ''object''),
               (PStr ''properties'', PDict [(PStr ''a'', PDict [(PStr ''type'', PStr ''number'')])])])
     = Inl (Exc ValidationError
         (''Configuration validation error: '' @ CHR 0x27 # ''x' is not of type 'number'' @ [CHR 0x27]))"
proof -
  have h: "jsonschema_validate demo_env (PDict [(PStr ''a'', PStr ''x'')])
       (PDict [(PStr ''type'', PStr ''object''),
               (PStr ''properties'', PDict [(PStr ''a'', PDict [(PStr ''type'', PStr ''number'')])])])
     = Some (Exc ValidationError (CHR 0x27 # ''x' is not of type 'number'' @ [CHR 0x27]))"
    by (simp add: demo_defs)
  show ?thesis using violation_message [OF h] h by simp
qed

text \<open>
  The claim as first stated fails: the message raised is not the engine's message itself.
\<close>

theorem violation_message_counterexample:
  "jsonschema_validate demo_env (PDict [(PStr ''a'', PStr ''x'')])
       (PDict [(PStr ''type'', PStr ''object''),
               (PStr ''properties'', PDict [(PStr ''a'', PDict [(PStr ''type'', PStr ''number'')])])])
     = Some (Exc ValidationError (CHR 0x27 # ''x' is not of type 'number'' @ [CHR 0x27]))
   \<and> validate_config demo_env (PDict [(PStr ''a'', PStr ''x'')])
       (PDict [(PStr ''type'', PStr ''object''),
               (PStr ''properties'', PDict [(PStr ''a'', PDict [(PStr ''type'', PStr ''number'')])])])
     \<noteq> Inl (Exc ValidationError (CHR 0x27 # ''x' is not of type 'number'' @ [CHR 0x27]))"
  by (simp add: demo_defs validate_config_def issubclass_def)

section \<open>An empty configuration file\<close>

text \<open>
  C4, as amended. Let the configuration file hold only whitespace (or nothing).
  With no hint and a path that ends in none of \<^verbatim>\<open>.json\<close>, \<^verbatim>\<open>.yaml\<close>, \<^verbatim>\<open>.yml\<close>, the run fails
  before the validator is called, ends with exit code 1 and prints "Error: Configuration
  file ... is empty." On the JSON path (hint \<^verbatim>\<open>json\<close>, or no hint and \<^verbatim>\<open>.json\<close>) and on the
  YAML path (hint \<^verbatim>\<open>yaml\<close>, or no hint and \<^verbatim>\<open>.yaml\<close> or \<^verbatim>\<open>.yml\<close>) the text is not checked for
  emptiness: it goes to the strict parser, and the run follows what the parser does.
  If the parser rejects the text with its syntax error, the run fails before the validator
  is called, ends with exit code 1 and prints "Error: Invalid JSON format in ...: " or
  "Error: Invalid YAML format in ...: " followed by the parser's message.
  If the parser returns a falsy value, the run fails before the validator is called, ends
  with exit code 1 and prints "Error: Configuration file ... is empty or contains no
  data." If the parser returns a truthy value, \<^verbatim>\<open>load_config\<close> returns that value and
  the run goes on to the schema. And whenever \<^verbatim>\<open>load_config\<close> raises, for any reason, the
  run ends with exit code 1 and the validator is not called.
\<close>

theorem empty_config_file:
  assumes "fs env (config_file a) = Text content" and "strip content = []"
  shows
    "(format a = None \<and> \<not> endswith (config_file a) ''.json''
        \<and> \<not> endswith (config_file a) ''.yaml'' \<and> \<not> endswith (config_file a) ''.yml''
      \<longrightarrow> main env a =
          \<lparr>stdout = [''Error: Configuration file '' @ config_file a @ '' is empty.''],
           log_records = emit (log_level a) ERROR
             (''Configuration file '' @ config_file a @ '' is empty.''),
           exit_code = 1, validator_calls = []\<rparr>)
     \<and> ((format a = Some FJson \<or> (format a = None \<and> endswith (config_file a) ''.json''))
        \<and> json_loads env content = Inl e \<and> cls e = JSONDecodeError
      \<longrightarrow> main env a =
          \<lparr>stdout = [''Error: Invalid JSON format in '' @ config_file a @ '': '' @ msg e],
           log_records = emit (log_level a) ERROR
             (''Invalid JSON format in '' @ config_file a @ '': '' @ msg e),
           exit_code = 1, validator_calls = []\<rparr>)
     \<and> ((format a = Some FYaml
         \<or> (format a = None
             \<and> (endswith (config_file a) ''.yaml'' \<or> endswith (config_file a) ''.yml'')))
        \<and> yaml_safe_load env content = Inl e \<and> cls e = YAMLError
      \<longrightarrow> main env a =
          \<lparr>stdout = [''Error: Invalid YAML format in '' @ config_file a @ '': '' @ msg e],
           log_records = emit (log_level a) ERROR
             (''Invalid YAML format in '' @ config_file a @ '': '' @ msg e),
           exit_code = 1, validator_calls = []\<rparr>)
     \<and> (((format a = Some FJson \<or> (format a = None \<and> endswith (config_file a) ''.json''))
          \<and> json_loads env content = Inr v
         \<or> (format a = Some FYaml
             \<or> (format a = None
                 \<and> (endswith (config_file a) ''.yaml'' \<or> endswith (config_file a) ''.yml'')))
          \<and> yaml_safe_load env content = Inr v)
        \<and> \<not> truthy v
      \<longrightarrow> main env a =
          \<lparr>stdout = [''Error: Configuration file '' @ config_file a
                      @ '' is empty or contains no data.''],
           log_records = emit (log_level a) ERROR
             (''Configuration file '' @ config_file a @ '' is empty or contains no data.''),
           exit_code = 1, validator_calls = []\<rparr>)
     \<and> (((format a = Some FJson \<or> (format a = None \<and> endswith (config_file a) ''.json''))
          \<and> json_loads env content = Inr v
         \<or> (format a = Some FYaml
             \<or> (format a = None
                 \<and> (endswith (config_file a) ''.yaml'' \<or> endswith (config_file a) ''.yml'')))
          \<and> yaml_safe_load env content = Inr v)
        \<and> truthy v
      \<longrightarrow> load_config env (config_file a) (format a) = Inr v)
     \<and> (load_config env (config_file a) (format a) = Inl e'
      \<longrightarrow> exit_code (main env a) = 1 \<and> validator_calls (main env a) = [])"
proof (intro conjI impI)
  assume h: "format a = None \<and> \<not> endswith (config_file a) ''.json''
        \<and> \<not> endswith (config_file a) ''.yaml'' \<and> \<not> endswith (config_file a) ''.yml''"
  have "parse_config env (config_file a) (format a)
        = Inl (Exc ValueError (''Configuration file '' @ config_file a @ '' is empty.''))"
    using h assms by (simp add: parse_config_Text autodetect_def)
  then have "load_config env (config_file a) (format a)
        = Inl (Exc ValueError (''Configuration file '' @ config_file a @ '' is empty.''))"
    by (rule load_config_ValueError)
  then show "main env a =
          \<lparr>stdout = [''Error: Configuration file '' @ config_file a @ '' is empty.''],
           log_records = emit (log_level a) ERROR
             (''Configuration file '' @ config_file a @ '' is empty.''),
           exit_code = 1, validator_calls = []\<rparr>"
    by (simp add: main_load_config_fails main_except_ValueError)
next
  assume h: "(format a = Some FJson \<or> (format a = None \<and> endswith (config_file a) ''.json''))
        \<and> json_loads env content = Inl e \<and> cls e = JSONDecodeError"
  have "parse_config env (config_file a) (format a)
        = Inl (Exc ValueError (''Invalid JSON format in '' @ config_file a @ '': '' @ msg e))"
    using h assms(1) by (auto simp: parse_config_Text parse_json_def issubclass_def)
  then have "load_config env (config_file a) (format a)
        = Inl (Exc ValueError (''Invalid JSON format in '' @ config_file a @ '': '' @ msg e))"
    by (rule load_config_ValueError)
  then show "main env a =
          \<lparr>stdout = [''Error: Invalid JSON format in '' @ config_file a @ '': '' @ msg e],
           log_records = emit (log_level a) ERROR
             (''Invalid JSON format in '' @ config_file a @ '': '' @ msg e),
           exit_code = 1, validator_calls = []\<rparr>"
    by (simp add: main_load_config_fails main_except_ValueError)
next
  assume h: "(format a = Some FYaml
         \<or> (format a = None
             \<and> (endswith (config_file a) ''.yaml'' \<or> endswith (config_file a) ''.yml'')))
        \<and> yaml_safe_load env content = Inl e \<and> cls e = YAMLError"
  have nj: "format a = None \<Longrightarrow> \<not> endswith (config_file a) ''.json''"
    using h yaml_not_json [of "config_file a"] by auto
  have "parse_config env (config_file a) (format a)
        = Inl (Exc ValueError (''Invalid YAML format in '' @ config_file a @ '': '' @ msg e))"
    using h assms(1) nj by (auto simp: parse_config_Text parse_yaml_def issubclass_def)
  then have "load_config env (config_file a) (format a)
        = Inl (Exc ValueError (''Invalid YAML format in '' @ config_file a @ '': '' @ msg e))"
    by (rule load_config_ValueError)
  then show "main env a =
          \<lparr>stdout = [''Error: Invalid YAML format in '' @ config_file a @ '': '' @ msg e],
           log_records = emit (log_level a) ERROR
             (''Invalid YAML format in '' @ config_file a @ '': '' @ msg e),
           exit_code = 1, validator_calls = []\<rparr>"
    by (simp add: main_load_config_fails main_except_ValueError)
next
  assume h: "((format a = Some FJson \<or> (format a = None \<and> endswith (config_file a) ''.json''))
          \<and> json_loads env content = Inr v
         \<or> (format a = Some FYaml
             \<or> (format a = None
                 \<and> (endswith (config_file a) ''.yaml'' \<or> endswith (config_file a) ''.yml'')))
          \<and> yaml_safe_load env content = Inr v)
        \<and> \<not> truthy v"
  from h have "parse_config env (config_file a) (format a) = Inr v"
    using assms(1) by (intro strict_parse_returns) simp_all
  with h have "load_config env (config_file a) (format a)
        = Inl (Exc ValueError
            (''Configuration file '' @ config_file a @ '' is empty or contains no data.''))"
    by (simp add: load_config_def load_config_except_def issubclass_def)
  then show "main env a =
          \<lparr>stdout = [''Error: Configuration file '' @ config_file a
                      @ '' is empty or contains no data.''],
           log_records = emit (log_level a) ERROR
             (''Configuration file '' @ config_file a @ '' is empty or contains no data.''),
           exit_code = 1, validator_calls = []\<rparr>"
    by (simp add: main_load_config_fails main_except_ValueError)
next
  assume h: "((format a = Some FJson \<or> (format a = None \<and> endswith (config_file a) ''.json''))
          \<and> json_loads env content = Inr v
         \<or> (format a = Some FYaml
             \<or> (format a = None
                 \<and> (endswith (config_file a) ''.yaml'' \<or> endswith (config_file a) ''.yml'')))
          \<and> yaml_safe_load env content = Inr v)
        \<and> truthy v"
  from h have "parse_config env (config_file a) (format a) = Inr v"
    using assms(1) by (intro strict_parse_returns) simp_all
  with h show "load_config env (config_file a) (format a) = Inr v"
    by (simp add: load_config_def)
next
  assume "load_config env (config_file a) (format a) = Inl e'"
  then have "main env a = main_except (log_level a) [] e'"
    by (rule main_load_config_fails)
  then show "exit_code (main env a) = 1"
    by (simp add: exit_code_main_except)
next
  assume "load_config env (config_file a) (format a) = Inl e'"
  then have "main env a = main_except (log_level a) [] e'"
    by (rule main_load_config_fails)
  then show "validator_calls (main env a) = []"
    by (simp add: validator_calls_main_except)
qed

theorem empty_config_file_witness:
  "fs demo_env ''blank.conf'' = Text '' \<newline>'' \<and> strip '' \<newline>'' = []
   \<and> main demo_env (demo_args ''blank.conf'' ''schema.json'' None INFO)
       = \<lparr>stdout = [''Error: Configuration file blank.conf is empty.''],
          log_records = [(ERROR, ''Configuration file blank.conf is empty.'')],
          exit_code = 1, validator_calls = []\<rparr>
   \<and> fs demo_env ''empty.json'' = Text []
   \<and> main demo_env (demo_args ''empty.json'' ''schema.json'' None INFO)
       = \<lparr>stdout = [''Error: Invalid JSON format in empty.json: Expecting value: line 1 column 1 (char 0)''],
          log_records = [(ERROR, ''Invalid JSON format in empty.json: Expecting value: line 1 column 1 (char 0)'')],
          exit_code = 1, validator_calls = []\<rparr>
   \<and> fs demo_env ''tab.yml'' = Text [CHR 0x09] \<and> strip [CHR 0x09] = []
   \<and> main demo_env (demo_args ''tab.yml'' ''schema.json'' None INFO)
       = \<lparr>stdout = [''Error: Invalid YAML format in tab.yml: found a character that cannot start any token''],
          log_records = [(ERROR, ''Invalid YAML format in tab.yml: found a character that cannot start any token'')],
          exit_code = 1, validator_calls = []\<rparr>
   \<and> fs demo_env ''empty.yaml'' = Text []
   \<and> main demo_env (demo_args ''empty.yaml'' ''schema.json'' None INFO)
       = \<lparr>stdout = [''Error: Configuration file empty.yaml is empty or contains no data.''],
          log_records = [(ERROR, ''Configuration file empty.yaml is empty or contains no data.'')],
          exit_code = 1, validator_calls = []\<rparr>
   \<and> fs demo_env ''nbsp.yaml'' = Text [CHR 0xA0] \<and> strip [CHR 0xA0] = []
   \<and> load_config demo_env ''nbsp.yaml'' None = Inr (PStr [CHR 0xA0])
   \<and> exit_code (main demo_env (demo_args ''nbsp.yaml'' ''permissive.json'' None INFO)) = 0
   \<and> load_config demo_env ''empty.json'' None
       = Inl (Exc ValueError
           ''Invalid JSON format in empty.json: Expecting value: line 1 column 1 (char 0)'')
   \<and> exit_code (main demo_env (demo_args ''empty.json'' ''schema.json'' None INFO)) = 1
   \<and> validator_calls (main demo_env (demo_args ''empty.json'' ''schema.json'' None INFO)) = []"
proof -
  have b1: "fs demo_env (config_file (demo_args ''blank.conf'' ''schema.json'' None INFO))
              = Text '' \<newline>''"
    by (simp add: demo_defs)
  have b2: "strip '' \<newline>'' = []" by (simp add: strip_def isspace_def)
  have j1: "fs demo_env (config_file (demo_args ''empty.json'' ''schema.json'' None INFO)) = Text []"
    by (simp add: demo_defs)
  have y1: "fs demo_env (config_file (demo_args ''empty.yaml'' ''schema.json'' None INFO)) = Text []"
    by (simp add: demo_defs)
  have t1: "fs demo_env (config_file (demo_args ''tab.yml'' ''schema.json'' None INFO))
              = Text [CHR 0x09]"
    by (simp add: demo_defs)
  have t2: "strip [CHR 0x09] = []" by (simp add: strip_def isspace_def)
  have n1: "fs demo_env (config_file (demo_args ''nbsp.yaml'' ''schema.json'' None INFO))
              = Text [CHR 0xA0]"
    by (simp add: demo_defs)
  have n2: "strip [CHR 0xA0] = []" by (simp add: strip_def isspace_def)
  have e: "strip [] = []" by (simp add: strip_def)
  have jl: "json_loads demo_env []
              = Inl (Exc JSONDecodeError ''Expecting value: line 1 column 1 (char 0)'')"
    by (simp add: demo_defs)
  have yl: "yaml_safe_load demo_env [] = Inr PNone" by (simp add: demo_defs)
  have tl: "yaml_safe_load demo_env [CHR 0x09]
              = Inl (Exc YAMLError ''found a character that cannot start any token'')"
    by (simp add: demo_defs)
  have nl: "yaml_safe_load demo_env [CHR 0xA0] = Inr (PStr [CHR 0xA0])"
    by (simp add: demo_defs)
  have lj: "load_config demo_env ''empty.json'' None
      = Inl (Exc ValueError
          ''Invalid JSON format in empty.json: Expecting value: line 1 column 1 (char 0)'')"
    by (simp add: demo_defs prog_defs)
  have nr: "exit_code (main demo_env (demo_args ''nbsp.yaml'' ''permissive.json'' None INFO)) = 0"
    by (simp add: demo_defs prog_defs)
  note w1 = empty_config_file [OF b1 b2]
  note w2 = empty_config_file [OF j1 e, where e = "Exc JSONDecodeError ''Expecting value: line 1 column 1 (char 0)''"
      and e' = "Exc ValueError
          ''Invalid JSON format in empty.json: Expecting value: line 1 column 1 (char 0)''"]
  note w3 = empty_config_file [OF t1 t2,
      where e = "Exc YAMLError ''found a character that cannot start any token''"]
  note w4 = empty_config_file [OF y1 e, where v = PNone]
  note w5 = empty_config_file [OF n1 n2, where v = "PStr [CHR 0xA0]"]
  show ?thesis
    using b1 b2 j1 y1 t1 t2 n1 n2 jl yl tl nl lj nr w1 w2 w3 w4 w5
    by (simp add: demo_args_def endswith_def emit_def)
qed

text \<open>
  The claim as first stated fails on an empty file named \<^verbatim>\<open>empty.json\<close>: the line printed is
  the JSON parser's complaint, not "Error: Configuration file empty.json is empty."
\<close>

theorem empty_config_file_counterexample:
  "fs demo_env ''empty.json'' = Text [] \<and> strip [] = []
   \<and> stdout (main demo_env (demo_args ''empty.json'' ''schema.json'' None INFO))
       = [''Error: Invalid JSON format in empty.json: Expecting value: line 1 column 1 (char 0)'']
   \<and> stdout (main demo_env (demo_args ''empty.json'' ''schema.json'' None INFO))
       \<noteq> [''Error: Configuration file empty.json is empty.'']"
  by (simp add: demo_defs prog_defs strip_def)

section \<open>No falsy document is returned\<close>

text \<open>The values that Python's boolean coercion takes for absent.\<close>

lemma falsy_values:
  "\<not> truthy (PDict []) \<and> \<not> truthy (PList []) \<and> \<not> truthy PNone \<and> \<not> truthy (PStr [])
   \<and> \<not> truthy (PInt 0) \<and> \<not> truthy (PFloat (FFinite 0 e)) \<and> \<not> truthy (PBool False)"
  by simp


text \<open>
  C5. Whatever the parse path (hint, extension or detection by content), a value that
  \<^verbatim>\<open>load_config\<close> returns is truthy; and when the parsed value is falsy, \<^verbatim>\<open>load_config\<close>
  raises the \<^verbatim>\<open>ValueError\<close> "Configuration file ... is empty or contains no data."
\<close>

theorem loaded_value_truthy:
  "(load_config env path f = Inr v \<longrightarrow> truthy v)
   \<and> (parse_config env path f = Inr v \<and> \<not> truthy v \<longrightarrow>
        load_config env path f
        = Inl (Exc ValueError (''Configuration file '' @ path @ '' is empty or contains no data.'')))"
  by (auto simp: load_config_def load_config_except_def issubclass_def
        split: sum.splits if_splits)

theorem loaded_value_truthy_witness:
  "load_config demo_env ''config.json'' None = Inr (PDict [(PStr ''a'', PInt 1)])
   \<and> truthy (PDict [(PStr ''a'', PInt 1)])
   \<and> parse_config demo_env ''permissive.json'' (Some FJson) = Inr (PDict [])
   \<and> load_config demo_env ''permissive.json'' (Some FJson)
       = Inl (Exc ValueError ''Configuration file permissive.json is empty or contains no data.'')
   \<and> parse_config demo_env ''empty.yaml'' None = Inr PNone
   \<and> load_config demo_env ''empty.yaml'' None
       = Inl (Exc ValueError ''Configuration file empty.yaml is empty or contains no data.'')
   \<and> parse_config demo_env ''zero.conf'' None = Inr (PInt 0)
   \<and> load_config demo_env ''zero.conf'' None
       = Inl (Exc ValueError ''Configuration file zero.conf is empty or contains no data.'')"
proof -
  have a: "load_config demo_env ''config.json'' None = Inr (PDict [(PStr ''a'', PInt 1)])"
    by (simp add: demo_defs prog_defs)
  have b: "parse_config demo_env ''permissive.json'' (Some FJson) = Inr (PDict [])"
    by (simp add: demo_defs prog_defs)
  have c: "parse_config demo_env ''empty.yaml'' None = Inr PNone"
    by (simp add: demo_defs prog_defs)
  have d: "parse_config demo_env ''zero.conf'' None = Inr (PInt 0)"
    by (simp add: demo_defs prog_defs strip_def isspace_def)
  show ?thesis
    using a b c d
      loaded_value_truthy [of demo_env "''config.json''" None "PDict [(PStr ''a'', PInt 1)]"]
      loaded_value_truthy [of demo_env "''permissive.json''" "Some FJson" "PDict []"]
      loaded_value_truthy [of demo_env "''empty.yaml''" None PNone]
      loaded_value_truthy [of demo_env "''zero.conf''" None "PInt 0"]
    by simp
qed

section \<open>The extension wins over the content\<close>



section \<open>The schema is read as JSON only\<close>



section \<open>The hint json on a .json file\<close>

text \<open>
  C8. For a path that ends in \<^verbatim>\<open>.json\<close>, loading with the hint \<^verbatim>\<open>json\<close> gives the same result
  as loading with no hint (the same document, or the same exception), and the whole run
  has the same outcome.
\<close>

theorem json_hint_same_as_no_hint:
  assumes "endswith (config_file a) ''.json''" and "format a = None"
  shows "load_config env (config_file a) (Some FJson) = load_config env (config_file a) None
         \<and> main env (a\<lparr>format := Some FJson\<rparr>) = main env a"
proof -
  have lc: "load_config env (config_file a) (Some FJson) = load_config env (config_file a) None"
    using assms(1) by (simp add: load_config_def parse_config_json_hint)
  have "main_try env (a\<lparr>format := Some FJson\<rparr>) = main_try env a"
    using lc assms(2) by (simp add: main_try_def split: sum.splits)
  then have "main env (a\<lparr>format := Some FJson\<rparr>) = main env a"
    by (simp add: main_def split: prod.splits sum.splits)
  with lc show ?thesis by simp
qed

theorem json_hint_same_as_no_hint_witness:
  "endswith (config_file (demo_args ''notes.json'' ''schema.json'' None INFO)) ''.json''
   \<and> format (demo_args ''notes.json'' ''schema.json'' None INFO) = None
   \<and> load_config demo_env ''notes.json'' (Some FJson)
       = Inl (Exc ValueError ''Invalid JSON format in notes.json: Expecting value: line 1 column 1 (char 0)'')
   \<and> load_config demo_env ''notes.json'' None
       = Inl (Exc ValueError ''Invalid JSON format in notes.json: Expecting value: line 1 column 1 (char 0)'')
   \<and> main demo_env (demo_args ''notes.json'' ''schema.json'' (Some FJson) INFO)
       = main demo_env (demo_args ''notes.json'' ''schema.json'' None INFO)"
proof -
  have h1: "endswith (config_file (demo_args ''notes.json'' ''schema.json'' None INFO)) ''.json''"
    by (simp add: demo_args_def endswith_def)
  have h2: "format (demo_args ''notes.json'' ''schema.json'' None INFO) = None"
    by (simp add: demo_args_def)
  have ev: "load_config demo_env ''notes.json'' None
       = Inl (Exc ValueError ''Invalid JSON format in notes.json: Expecting value: line 1 column 1 (char 0)'')"
    by (simp add: demo_defs prog_defs)
  show ?thesis
    using json_hint_same_as_no_hint [OF h1 h2, of demo_env] h1 h2 ev
    by (simp add: demo_args_def)
qed

section \<open>The log level\<close>

text \<open>
  C9. Two runs that differ only in the log level yield the same result of the \<^verbatim>\<open>try\<close>
  block (the verdict), the same lines on stdout, the same exit code and the same calls to
  the validator.
\<close>

theorem log_level_no_influence:
  "stdout (main env (a\<lparr>log_level := l\<rparr>)) = stdout (main env a)
   \<and> exit_code (main env (a\<lparr>log_level := l\<rparr>)) = exit_code (main env a)
   \<and> validator_calls (main env (a\<lparr>log_level := l\<rparr>)) = validator_calls (main env a)
   \<and> main_try env (a\<lparr>log_level := l\<rparr>) = main_try env a"
proof -
  have t: "main_try env (a\<lparr>log_level := l\<rparr>) = main_try env a"
    by (simp add: main_try_def split: sum.splits)
  show ?thesis
    by (simp add: main_def t stdout_main_except exit_code_main_except
          validator_calls_main_except split: prod.splits sum.splits)
qed

section \<open>The fallback branch of the Orchestrator\<close>

text \<open>
  C10. \<^verbatim>\<open>validate_config\<close> never returns \<^verbatim>\<open>False\<close>: it returns \<^verbatim>\<open>True\<close> or raises. So the
  branch of \<^verbatim>\<open>main\<close> that reports "Configuration is invalid, but no exception was
  raised" is never taken: no run prints that line, whatever the files, the parsers and
  the engine do.
\<close>

theorem validate_config_never_False:
  "validate_config env config_data schema_data \<noteq> Inr False
   \<and> ''Configuration is invalid, but no exception was raised. This is unexpected.''
       \<notin> set (stdout (main env a))"
proof
  show "validate_config env config_data schema_data \<noteq> Inr False"
    by (simp add: validate_config_def split: option.splits)
next
  show "''Configuration is invalid, but no exception was raised. This is unexpected.''
       \<notin> set (stdout (main env a))"
    by (simp add: main_def main_try_def validate_config_def stdout_main_except
             split: sum.splits option.splits prod.splits)
qed

end
